theory Spec2Isabelle
  imports Complex_Main "HOL-Library.Sublist" "HOL-Library.List_Lexorder" "HOL-Library.Char_ord"
begin

section \<open>Conventions\<close>

text \<open>
  The rulebook pipeline is written in Python. Its values are modelled as follows.
  \<^item> A \<open>str\<close> is a \<open>string\<close>; one \<open>char\<close> stands for one code point, so the
    model covers the strings whose code points are below 256, and \<open>length\<close> is
    Python's \<open>len\<close>.
  \<^item> A \<open>float\<close> is a \<open>real\<close>: rounding, overflow and NaN are left out, the
    comparisons and the control flow around them are kept. \<open>x ** 0.5\<close> is \<open>sqrt x\<close>.
  \<^item> An \<open>int\<close> is an \<open>int\<close>, an index or a length is a \<open>nat\<close>.
  \<^item> An exception is a value \<open>Inl e\<close> of a sum type; a \<open>try/except\<close> is a case
    distinction on it.
\<close>

datatype py_error = TypeError | ValueError | IndexError | ZeroDivisionError | ModelError

type_synonym vector = "real list"

section \<open>Python built-ins used by the pipeline\<close>

text \<open>\<open>s.split(sep)\<close> for a non-empty separator: scan from the left, cut at every
  occurrence of \<open>sep\<close>, continue behind it. \<open>cur\<close> is the piece read so far.\<close>

function py_split :: "'a list \<Rightarrow> 'a list \<Rightarrow> 'a list \<Rightarrow> 'a list list" where
  "py_split sep cur [] = [cur]"
| "py_split sep cur (c # cs) =
     (if sep \<noteq> [] \<and> prefix sep (c # cs)
      then cur # py_split sep [] (drop (length sep) (c # cs))
      else py_split sep (cur @ [c]) cs)"
  by pat_completeness auto
termination
  by (relation "measure (\<lambda>(sep, cur, s). length s)") auto

text \<open>\<open>sep.join(parts)\<close>.\<close>

fun py_join :: "'a list \<Rightarrow> 'a list list \<Rightarrow> 'a list" where
  "py_join sep [] = []"
| "py_join sep [p] = p"
| "py_join sep (p # q # ps) = p @ sep @ py_join sep (q # ps)"

text \<open>\<open>xs[:n]\<close>: a negative \<open>n\<close> counts from the end.\<close>

definition py_slice_to :: "int \<Rightarrow> 'a list \<Rightarrow> 'a list" where
  "py_slice_to n xs =
     (if n < 0 then take (nat (int (length xs) + n)) xs else take (nat n) xs)"

text \<open>\<open>str.isspace\<close> on one code point below 256, and \<open>s.strip()\<close>.\<close>

definition is_space :: "char \<Rightarrow> bool" where
  "is_space c = (of_char c \<in> {9, 10, 11, 12, 13, 28, 29, 30, 31, 32, 133, 160 :: nat})"

definition strip :: "string \<Rightarrow> string" where
  "strip s = rev (dropWhile is_space (rev (dropWhile is_space s)))"

text \<open>\<open>s.lower()\<close> on code points below 256: the ASCII capitals and the Latin-1
  capitals (192 to 222 without the multiplication sign 215) move up by 32.\<close>

definition lower_char :: "char \<Rightarrow> char" where
  "lower_char c =
     (let n = (of_char c :: nat)
      in if (65 \<le> n \<and> n \<le> 90) \<or> (192 \<le> n \<and> n \<le> 222 \<and> n \<noteq> 215)
         then char_of (n + 32) else c)"

definition lower :: "string \<Rightarrow> string" where
  "lower s = map lower_char s"

text \<open>\<open>a in b\<close> on strings: \<open>a\<close> occurs in \<open>b\<close> as a contiguous substring.\<close>

fun py_in :: "'a list \<Rightarrow> 'a list \<Rightarrow> bool" where
  "py_in a [] = (a = [])"
| "py_in a (c # cs) = (prefix a (c # cs) \<or> py_in a cs)"

text \<open>\<open>s.replace(" ", "_")\<close>: both strings have one character, so every space
  becomes an underscore and nothing else changes.\<close>

definition replace_space :: "string \<Rightarrow> string" where
  "replace_space s = map (\<lambda>c. if c = CHR '' '' then CHR ''_'' else c) s"

text \<open>\<open>str(n)\<close> for an integer: decimal digits, a minus sign when negative.\<close>

fun str_nat :: "nat \<Rightarrow> string" where
  "str_nat n =
     (if n < 10 then [char_of (48 + n)]
      else str_nat (n div 10) @ [char_of (48 + n mod 10)])"

definition str_int :: "int \<Rightarrow> string" where
  "str_int i = (if i < 0 then CHR ''-'' # str_nat (nat (- i)) else str_nat (nat i))"

text \<open>\<open>xs.sort(key=key, reverse=True)\<close>: the list sorted by descending key.
  Python's sort is stable also with \<open>reverse=True\<close>: elements with equal keys keep
  the order they had. \<open>sort_key\<close> is a stable insertion sort; the negated key
  turns its ascending order into the descending one.\<close>

definition sort_reverse :: "('a \<Rightarrow> real) \<Rightarrow> 'a list \<Rightarrow> 'a list" where
  "sort_reverse key xs = sort_key (\<lambda>x. - key x) xs"

section \<open>Data models (models/data_models.py)\<close>

record table =
  table_title :: string
  headers :: "string list"
  rows :: "string list list"
  table_page_number :: int

record chunk_metadata =
  section_level :: int
  page_range :: string
  chunk_index :: nat

record content_chunk =
  chunk_id :: string
  rulebook :: string
  system :: string
  content_type :: string
  title :: string
  content :: string
  page_number :: int
  section_path :: "string list"
  embedding :: vector
  metadata :: chunk_metadata
  tables :: "table list option"

record search_result =
  result_chunk :: content_chunk
  relevance_score :: real
  match_type :: string
  highlighted_text :: "string option"

record doc_section =
  sec_title :: string
  sec_content :: string
  page_start :: int
  page_end :: int
  level :: int
  parent_sections :: "string list"

section \<open>The store (redis_manager/redis_manager.py)\<close>

text \<open>
  The Redis database, as far as the rulebook functions read and write it.
  \<open>hashes\<close> lists the hash keys in the order in which \<open>SCAN\<close> enumerates them (Redis
  leaves that order open), each with the decoded JSON of its \<open>data\<close> field, or \<open>None\<close>
  when the hash has no such field. \<open>sets\<close> gives the members of every named set.
  \<open>json.loads (json.dumps d)\<close> is taken to be \<open>d\<close>.
\<close>

record redis =
  hashes :: "(string \<times> content_chunk option) list"
  sets :: "string \<Rightarrow> string set"

definition CHUNK_PREFIX :: string where
  "CHUNK_PREFIX = ''chunk:''"

definition empty_redis :: redis where
  "empty_redis = \<lparr>hashes = [], sets = (\<lambda>_. {})\<rparr>"

text \<open>\<open>scan_iter(match=p + "*")\<close>: the keys that start with \<open>p\<close>, in SCAN order.\<close>

definition scan_iter :: "redis \<Rightarrow> string \<Rightarrow> string list" where
  "scan_iter r p = filter (prefix p) (map fst (hashes r))"

text \<open>\<open>hget(key, "data")\<close>, decoded.\<close>

definition hget_data :: "redis \<Rightarrow> string \<Rightarrow> content_chunk option" where
  "hget_data r k = (case map_of (hashes r) k of Some (Some d) \<Rightarrow> Some d | _ \<Rightarrow> None)"

definition smembers :: "redis \<Rightarrow> string \<Rightarrow> string set" where
  "smembers r name = sets r name"

text \<open>\<open>hset(key, mapping={"data": json.dumps(d), ...})\<close>: an existing key keeps its
  place, a new one is added.\<close>

fun hset_data :: "string \<Rightarrow> content_chunk \<Rightarrow> (string \<times> content_chunk option) list
    \<Rightarrow> (string \<times> content_chunk option) list" where
  "hset_data k d [] = [(k, Some d)]"
| "hset_data k d ((k', v) # kvs) =
     (if k = k' then (k, Some d) # kvs else (k', v) # hset_data k d kvs)"

definition sadd :: "string \<Rightarrow> string \<Rightarrow> redis \<Rightarrow> redis" where
  "sadd name member r = r\<lparr>sets := (sets r)(name := insert member (sets r name))\<rparr>"

text \<open>\<open>store_rulebook_content\<close>: one pipeline of an \<open>hset\<close> and three \<open>sadd\<close> per
  chunk, executed as a whole.\<close>

definition store_chunk :: "content_chunk \<Rightarrow> redis \<Rightarrow> redis" where
  "store_chunk chunk r =
     (let chunk_key = CHUNK_PREFIX @ chunk_id chunk;
          chunk_data =
            chunk\<lparr>tables := Some (case tables chunk of None \<Rightarrow> [] | Some ts \<Rightarrow> ts)\<rparr>;
          r1 = r\<lparr>hashes := hset_data chunk_key chunk_data (hashes r)\<rparr>;
          r2 = sadd (''rulebook:'' @ rulebook chunk) chunk_key r1;
          r3 = sadd (''system:'' @ system chunk) chunk_key r2
      in sadd (''content_type:'' @ content_type chunk) chunk_key r3)"

definition store_rulebook_content :: "content_chunk list \<Rightarrow> redis \<Rightarrow> redis" where
  "store_rulebook_content chunks r = fold store_chunk chunks r"

subsection \<open>Candidate narrowing\<close>

text \<open>
  \<open>filters\<close> is an optional dict, here an optional list of its items in iteration
  order. \<open>result_keys\<close> is a Python set: it is kept as the list of its members
  without repetition, \<open>set(xs)\<close> is \<open>remdups xs\<close> and \<open>a &= b\<close> keeps the members of
  \<open>a\<close> that are in \<open>b\<close>. Python leaves the iteration order of a set open; the
  list stands for whatever order \<open>list(result_keys)\<close> produces.
\<close>

fun apply_filters :: "redis \<Rightarrow> (string \<times> string) list \<Rightarrow> string list \<Rightarrow> string list" where
  "apply_filters r [] result_keys = result_keys"
| "apply_filters r ((filter_key, filter_value) # fs) result_keys =
     (if filter_key = ''rulebook''
      then apply_filters r fs
             (filter (\<lambda>k. k \<in> smembers r (''rulebook:'' @ filter_value)) result_keys)
      else if filter_key = ''system''
      then apply_filters r fs
             (filter (\<lambda>k. k \<in> smembers r (''system:'' @ filter_value)) result_keys)
      else if filter_key = ''content_type''
      then apply_filters r fs
             (filter (\<lambda>k. k \<in> smembers r (''content_type:'' @ filter_value)) result_keys)
      else apply_filters r fs result_keys)"

definition get_filtered_chunks :: "redis \<Rightarrow> (string \<times> string) list option \<Rightarrow> string list" where
  "get_filtered_chunks r filters =
     (case filters of
        None \<Rightarrow> scan_iter r CHUNK_PREFIX
      | Some [] \<Rightarrow> scan_iter r CHUNK_PREFIX
      | Some fs \<Rightarrow> apply_filters r fs (remdups (scan_iter r CHUNK_PREFIX)))"

subsection \<open>Cosine similarity\<close>

definition dot_product :: "vector \<Rightarrow> vector \<Rightarrow> real" where
  "dot_product vec1 vec2 = sum_list (map (\<lambda>(a, b). a * b) (zip vec1 vec2))"

definition magnitude :: "vector \<Rightarrow> real" where
  "magnitude vec = sqrt (sum_list (map (\<lambda>a. a * a) vec))"

text \<open>Python's \<open>/\<close> on floats raises \<open>ZeroDivisionError\<close> on a zero divisor.\<close>

definition py_div :: "real \<Rightarrow> real \<Rightarrow> py_error + real" where
  "py_div a b = (if b = 0 then Inl ZeroDivisionError else Inr (a / b))"

text \<open>The body of the \<open>try\<close> in \<open>_cosine_similarity\<close>.\<close>

definition cosine_try :: "vector \<Rightarrow> vector \<Rightarrow> py_error + real" where
  "cosine_try vec1 vec2 =
     (let magnitude1 = magnitude vec1; magnitude2 = magnitude vec2
      in if magnitude1 = 0 \<or> magnitude2 = 0 then Inr 0
         else py_div (dot_product vec1 vec2) (magnitude1 * magnitude2))"

definition cosine_similarity :: "vector \<Rightarrow> vector \<Rightarrow> real" where
  "cosine_similarity vec1 vec2 =
     (if vec1 = [] \<or> vec2 = [] \<or> length vec1 \<noteq> length vec2 then 0
      else case cosine_try vec1 vec2 of Inl _ \<Rightarrow> 0 | Inr s \<Rightarrow> s)"

subsection \<open>Vector search\<close>

definition dict_to_content_chunk :: "content_chunk \<Rightarrow> content_chunk" where
  "dict_to_content_chunk chunk_dict =
     chunk_dict\<lparr>tables := Some (case tables chunk_dict of None \<Rightarrow> [] | Some ts \<Rightarrow> ts)\<rparr>"

text \<open>The loop over the candidate keys: the triples \<open>(chunk_key, chunk_dict,
  similarity)\<close> appended to \<open>similarities\<close>, in the order of the keys.\<close>

fun score_candidates :: "redis \<Rightarrow> vector \<Rightarrow> real \<Rightarrow> string list
    \<Rightarrow> (string \<times> content_chunk \<times> real) list" where
  "score_candidates r query_embedding similarity_threshold [] = []"
| "score_candidates r query_embedding similarity_threshold (chunk_key # chunk_keys) =
     (let rest = score_candidates r query_embedding similarity_threshold chunk_keys
      in case hget_data r chunk_key of
           None \<Rightarrow> rest
         | Some chunk_dict \<Rightarrow>
             if embedding chunk_dict \<noteq> []
             then (let similarity = cosine_similarity query_embedding (embedding chunk_dict)
                   in if similarity \<ge> similarity_threshold
                      then (chunk_key, chunk_dict, similarity) # rest else rest)
             else rest)"

definition semantic_result :: "string \<times> content_chunk \<times> real \<Rightarrow> search_result" where
  "semantic_result t =
     \<lparr>result_chunk = dict_to_content_chunk (fst (snd t)), relevance_score = snd (snd t),
      match_type = ''semantic'', highlighted_text = None\<rparr>"

text \<open>\<open>similarities\<close> after the sort and the cut to \<open>max_results\<close>.\<close>

definition top_similarities :: "redis \<Rightarrow> string list \<Rightarrow> vector \<Rightarrow> int \<Rightarrow> real
    \<Rightarrow> (string \<times> content_chunk \<times> real) list" where
  "top_similarities r chunk_keys query_embedding max_results similarity_threshold =
     py_slice_to max_results
       (sort_reverse (\<lambda>x. snd (snd x))
          (score_candidates r query_embedding similarity_threshold chunk_keys))"

text \<open>\<open>vector_search\<close> once \<open>chunk_keys\<close> is known.\<close>

definition rank_candidates :: "redis \<Rightarrow> string list \<Rightarrow> vector \<Rightarrow> int \<Rightarrow> real
    \<Rightarrow> search_result list" where
  "rank_candidates r chunk_keys query_embedding max_results similarity_threshold =
     (if chunk_keys = [] then []
      else map semantic_result
             (top_similarities r chunk_keys query_embedding max_results similarity_threshold))"

definition vector_search :: "redis \<Rightarrow> vector \<Rightarrow> (string \<times> string) list option \<Rightarrow> int \<Rightarrow> real
    \<Rightarrow> search_result list" where
  "vector_search r query_embedding filters max_results similarity_threshold =
     rank_candidates r (get_filtered_chunks r filters) query_embedding max_results
       similarity_threshold"

subsection \<open>Keyword search\<close>



section \<open>The embedding service (embedding_service/embedding_service.py)\<close>

text \<open>
  The sentence-transformer model is outside the program: \<open>encode\<close> is
  \<open>model.encode(text).tolist()\<close> on one text, \<open>encode_batch\<close> is \<open>model.encode\<close> on a
  list of texts followed by \<open>tolist\<close> on each row; either may raise. \<open>get_text_hash\<close>
  is the MD5 hex digest. The cache maps digests to vectors; writing it to disk is left
  out.
\<close>

record sentence_transformer =
  encode :: "string \<Rightarrow> py_error + vector"
  encode_batch :: "string list \<Rightarrow> py_error + vector list"

record embedding_service =
  model :: sentence_transformer
  get_text_hash :: "string \<Rightarrow> string"
  cache_embeddings :: bool
  cache :: "string \<rightharpoonup> vector"


text \<open>The first loop of \<open>batch_embed\<close>, on the texts from index \<open>i\<close> on: the list
  \<open>embeddings\<close> with \<open>None\<close> as placeholder, \<open>uncached_texts\<close> and
  \<open>uncached_indices\<close>.\<close>

fun check_cache :: "embedding_service \<Rightarrow> nat \<Rightarrow> string list
    \<Rightarrow> vector option list \<times> string list \<times> nat list" where
  "check_cache svc i [] = ([], [], [])"
| "check_cache svc i (txt # texts) =
     (case check_cache svc (Suc i) texts of
        (embeddings, uncached_texts, uncached_indices) \<Rightarrow>
          (if txt = [] \<or> strip txt = []
           then (Some [] # embeddings, uncached_texts, uncached_indices)
           else (case cache svc (get_text_hash svc txt) of
                   Some v \<Rightarrow> (Some v # embeddings, uncached_texts, uncached_indices)
                 | None \<Rightarrow>
                     (None # embeddings, strip txt # uncached_texts, i # uncached_indices))))"

text \<open>The inner loop over \<open>enumerate(batch_embeddings)\<close>. The state is the pair of
  \<open>embeddings\<close> and the cache; the flag is \<open>False\<close> when the loop was left by an
  exception (\<open>batch_indices[j]\<close> out of range), with the state as it then was.\<close>

fun store_results :: "embedding_service \<Rightarrow> string list \<Rightarrow> nat list \<Rightarrow> vector list
    \<Rightarrow> vector option list \<times> (string \<rightharpoonup> vector)
    \<Rightarrow> (vector option list \<times> (string \<rightharpoonup> vector)) \<times> bool" where
  "store_results svc batch_texts batch_indices [] st = (st, True)"
| "store_results svc batch_texts [] (e # es) st = (st, False)"
| "store_results svc [] (i # batch_indices) (e # es) st = (st, False)"
| "store_results svc (t # batch_texts) (original_index # batch_indices) (e # es) (embeddings, c) =
     store_results svc batch_texts batch_indices es
       (embeddings[original_index := Some e],
        if cache_embeddings svc then c(get_text_hash svc t \<mapsto> e) else c)"

text \<open>The loop \<open>for i in range(0, len(uncached_texts), batch_size)\<close> for a positive
  \<open>batch_size\<close>, on the texts not yet submitted.\<close>

function process_batches :: "embedding_service \<Rightarrow> nat \<Rightarrow> string list \<Rightarrow> nat list
    \<Rightarrow> vector option list \<times> (string \<rightharpoonup> vector)
    \<Rightarrow> (vector option list \<times> (string \<rightharpoonup> vector)) \<times> bool" where
  "process_batches svc batch_size uncached_texts uncached_indices st =
     (if batch_size = 0 \<or> uncached_texts = [] then (st, True)
      else case encode_batch (model svc) (take batch_size uncached_texts) of
             Inl e \<Rightarrow> (st, False)
           | Inr batch_embeddings \<Rightarrow>
               (case store_results svc (take batch_size uncached_texts)
                       (take batch_size uncached_indices) batch_embeddings st of
                  (st', False) \<Rightarrow> (st', False)
                | (st', True) \<Rightarrow>
                    process_batches svc batch_size (drop batch_size uncached_texts)
                      (drop batch_size uncached_indices) st'))"
  by pat_completeness auto
termination
  by (relation "measure (\<lambda>(svc, n, ts, is, st). length ts)") auto

text \<open>The \<open>except\<close> branch: every placeholder becomes the empty vector.\<close>

definition fill_none :: "vector option list \<Rightarrow> vector option list" where
  "fill_none embeddings = map (\<lambda>emb. case emb of None \<Rightarrow> Some [] | Some v \<Rightarrow> Some v) embeddings"

text \<open>\<open>batch_embed\<close>. A zero \<open>batch_size\<close> makes \<open>range\<close> raise inside the \<open>try\<close>, a
  negative one gives an empty range. The result may hold \<open>None\<close> where the loop
  stored nothing and no exception was raised.\<close>

definition batch_embed :: "embedding_service \<Rightarrow> string list \<Rightarrow> int
    \<Rightarrow> vector option list \<times> embedding_service" where
  "batch_embed svc texts batch_size =
     (if texts = [] then ([], svc)
      else case check_cache svc 0 texts of
        (embeddings, uncached_texts, uncached_indices) \<Rightarrow>
          (if uncached_texts = [] then (embeddings, svc)
           else if batch_size = 0 then (fill_none embeddings, svc)
           else if batch_size < 0 then (embeddings, svc)
           else (case process_batches svc (nat batch_size) uncached_texts uncached_indices
                        (embeddings, cache svc) of
                   ((embeddings', c), True) \<Rightarrow> (embeddings', svc\<lparr>cache := c\<rparr>)
                 | ((embeddings', c), False) \<Rightarrow>
                     (fill_none embeddings', svc\<lparr>cache := c\<rparr>))))"

subsection \<open>Similarity of two embeddings\<close>

text \<open>\<open>np.dot\<close> on two one-dimensional arrays raises \<open>ValueError\<close> when their
  lengths differ; \<open>np.linalg.norm\<close> is the Euclidean norm. The division is written
  with \<open>py_div\<close>, so that a zero divisor would show as an error.\<close>

definition np_dot :: "vector \<Rightarrow> vector \<Rightarrow> py_error + real" where
  "np_dot vec1 vec2 =
     (if length vec1 \<noteq> length vec2 then Inl ValueError else Inr (dot_product vec1 vec2))"

definition similarity_try :: "vector \<Rightarrow> vector \<Rightarrow> py_error + real" where
  "similarity_try embedding1 embedding2 =
     (case np_dot embedding1 embedding2 of
        Inl e \<Rightarrow> Inl e
      | Inr dot \<Rightarrow>
          (let norm_vec1 = magnitude embedding1; norm_vec2 = magnitude embedding2
           in if norm_vec1 = 0 \<or> norm_vec2 = 0 then Inr 0
              else py_div dot (norm_vec1 * norm_vec2)))"

definition similarity :: "vector \<Rightarrow> vector \<Rightarrow> real" where
  "similarity embedding1 embedding2 =
     (if embedding1 = [] \<or> embedding2 = [] then 0
      else case similarity_try embedding1 embedding2 of Inl _ \<Rightarrow> 0 | Inr s \<Rightarrow> s)"

section \<open>The PDF parser (pdf_parser/pdf_parser.py)\<close>

text \<open>
  What \<open>extract_text\<close> hands on: the pages with their texts, the outline and the
  page count. The \<open>page\<close> of an outline entry may be \<open>None\<close>.
\<close>

record page_data =
  pg_number :: int
  pg_text :: string
  pg_tables :: "table list"

record toc_entry =
  toc_title :: string
  toc_page :: "int option"
  toc_level :: int

record extracted_data =
  pages :: "page_data list"
  toc :: "toc_entry list"
  total_pages :: int

subsection \<open>Section identification from the outline\<close>

text \<open>The loop of \<open>_extract_section_content\<close>. The comparison
  \<open>start_page <= page_num <= end_page\<close> raises \<open>TypeError\<close> on a \<open>None\<close> start page.\<close>

fun content_lines :: "page_data list \<Rightarrow> int option \<Rightarrow> int \<Rightarrow> py_error + string list" where
  "content_lines [] start_page end_page = Inr []"
| "content_lines (page # ps) start_page end_page =
     (case start_page of
        None \<Rightarrow> Inl TypeError
      | Some start \<Rightarrow>
          (case content_lines ps start_page end_page of
             Inl e \<Rightarrow> Inl e
           | Inr rest \<Rightarrow>
               if start \<le> pg_number page \<and> pg_number page \<le> end_page \<and> pg_text page \<noteq> []
               then Inr (pg_text page # rest) else Inr rest))"

definition extract_section_content :: "page_data list \<Rightarrow> int option \<Rightarrow> int \<Rightarrow> string
    \<Rightarrow> py_error + string" where
  "extract_section_content ps start_page end_page section_title =
     (case content_lines ps start_page end_page of
        Inl e \<Rightarrow> Inl e
      | Inr ls \<Rightarrow> Inr (py_join [CHR 0x0A] ls))"

text \<open>"Determine end page" for the entry at index \<open>i\<close>; \<open>None - 1\<close> raises
  \<open>TypeError\<close>.\<close>

definition end_page_of :: "extracted_data \<Rightarrow> nat \<Rightarrow> py_error + int" where
  "end_page_of extracted i =
     (if i + 1 < length (toc extracted)
      then (let next_entry = toc extracted ! (i + 1)
            in if toc_level next_entry \<le> toc_level (toc extracted ! i)
               then (case toc_page next_entry of
                       None \<Rightarrow> Inl TypeError
                     | Some p \<Rightarrow> Inr (p - 1))
               else Inr (total_pages extracted))
      else Inr (total_pages extracted))"

definition parent_sections_of :: "toc_entry list \<Rightarrow> nat \<Rightarrow> string list" where
  "parent_sections_of t i =
     map toc_title (filter (\<lambda>e. toc_level e < toc_level (t ! i)) (take i t))"

text \<open>One round of the loop over the outline: an error, no section (empty content)
  or the section. A section is built only from non-empty content, which needs a page
  and so a start page that is not \<open>None\<close>.\<close>

definition section_of_entry :: "extracted_data \<Rightarrow> nat \<Rightarrow> py_error + doc_section option" where
  "section_of_entry extracted i =
     (let toc_entry = toc extracted ! i
      in case end_page_of extracted i of
           Inl e \<Rightarrow> Inl e
         | Inr end_page \<Rightarrow>
             (case extract_section_content (pages extracted) (toc_page toc_entry) end_page
                     (toc_title toc_entry) of
                Inl e \<Rightarrow> Inl e
              | Inr section_content \<Rightarrow>
                  (case toc_page toc_entry of
                     None \<Rightarrow> Inr None
                   | Some start_page \<Rightarrow>
                       if section_content \<noteq> []
                       then Inr (Some \<lparr>sec_title = toc_title toc_entry,
                                       sec_content = section_content,
                                       page_start = start_page, page_end = end_page,
                                       level = toc_level toc_entry,
                                       parent_sections = parent_sections_of (toc extracted) i\<rparr>)
                       else Inr None)))"

fun sections_from :: "extracted_data \<Rightarrow> nat list \<Rightarrow> py_error + doc_section list" where
  "sections_from extracted [] = Inr []"
| "sections_from extracted (i # is) =
     (case section_of_entry extracted i of
        Inl e \<Rightarrow> Inl e
      | Inr s \<Rightarrow>
          (case sections_from extracted is of
             Inl e \<Rightarrow> Inl e
           | Inr rest \<Rightarrow> Inr ((case s of None \<Rightarrow> [] | Some sec \<Rightarrow> [sec]) @ rest)))"

text \<open>\<open>identify_sections\<close>. The fallback on heading patterns
  (\<open>_identify_sections_from_text\<close>) matches regular expressions and is taken as a
  parameter.\<close>

definition identify_sections :: "(page_data list \<Rightarrow> doc_section list) \<Rightarrow> extracted_data
    \<Rightarrow> py_error + doc_section list" where
  "identify_sections identify_sections_from_text extracted =
     (if toc extracted = [] then Inr (identify_sections_from_text (pages extracted))
      else sections_from extracted [0..<length (toc extracted)])"

text \<open>The rule of the specification for the end page of outline entry \<open>i\<close>: the
  start page of the next entry whose level is at most that of \<open>i\<close>, minus one, or
  the last page of the document.\<close>

definition outline_end_page_spec :: "extracted_data \<Rightarrow> nat \<Rightarrow> int option" where
  "outline_end_page_spec extracted i =
     (case filter (\<lambda>e. toc_level e \<le> toc_level (toc extracted ! i))
             (drop (Suc i) (toc extracted)) of
        [] \<Rightarrow> Some (total_pages extracted)
      | e # _ \<Rightarrow> map_option (\<lambda>p. p - 1) (toc_page e))"

subsection \<open>Chunking\<close>

text \<open>The loop of \<open>_split_section_into_chunks\<close> over the paragraphs, with
  \<open>current_chunk\<close> and \<open>current_size\<close>, and the final chunk after it.\<close>

fun split_loop :: "int \<Rightarrow> string list \<Rightarrow> string list \<Rightarrow> int \<Rightarrow> string list" where
  "split_loop max_chunk_size [] current_chunk current_size =
     (if current_chunk \<noteq> [] then [py_join [CHR 0x0A, CHR 0x0A] current_chunk] else [])"
| "split_loop max_chunk_size (paragraph # paragraphs) current_chunk current_size =
     (let para_size = int (length paragraph)
      in if current_size + para_size > max_chunk_size \<and> current_chunk \<noteq> []
         then py_join [CHR 0x0A, CHR 0x0A] current_chunk
              # split_loop max_chunk_size paragraphs [paragraph] para_size
         else split_loop max_chunk_size paragraphs (current_chunk @ [paragraph])
                (current_size + para_size))"

definition split_section_into_chunks :: "doc_section \<Rightarrow> int \<Rightarrow> string list" where
  "split_section_into_chunks sec max_chunk_size =
     (if int (length (sec_content sec)) \<le> max_chunk_size then [sec_content sec]
      else split_loop max_chunk_size (py_split [CHR 0x0A, CHR 0x0A] [] (sec_content sec)) [] 0)"

definition determine_content_type :: "string \<Rightarrow> string" where
  "determine_content_type ttl =
     (let title_lower = lower ttl
      in if list_ex (\<lambda>word. py_in word title_lower) [''spell'', ''magic'', ''cantrip'']
         then ''spell''
         else if list_ex (\<lambda>word. py_in word title_lower)
                   [''monster'', ''creature'', ''bestiary'']
         then ''monster''
         else if list_ex (\<lambda>word. py_in word title_lower)
                   [''item'', ''equipment'', ''weapon'', ''armor'']
         then ''item''
         else if list_ex (\<lambda>word. py_in word title_lower)
                   [''rule'', ''combat'', ''action'', ''mechanic'']
         then ''rule''
         else ''rule'')"

text \<open>The id of piece \<open>i\<close> of a section:
  \<open>f"{rulebook_name}_{section.title}_{i}".replace(" ", "_")\<close>.\<close>

definition make_chunk_id :: "string \<Rightarrow> string \<Rightarrow> nat \<Rightarrow> string" where
  "make_chunk_id rulebook_name section_title i =
     replace_space (rulebook_name @ ''_'' @ section_title @ ''_'' @ str_nat i)"

definition chunks_of_section :: "string \<Rightarrow> string \<Rightarrow> doc_section \<Rightarrow> content_chunk list" where
  "chunks_of_section rulebook_name sys sec =
     map (\<lambda>(i, chunk_content).
            \<lparr>chunk_id = make_chunk_id rulebook_name (sec_title sec) i,
             rulebook = rulebook_name,
             system = sys,
             content_type = determine_content_type (sec_title sec),
             title = sec_title sec,
             content = chunk_content,
             page_number = page_start sec,
             section_path = parent_sections sec @ [sec_title sec],
             embedding = [],
             metadata = \<lparr>section_level = level sec,
                         page_range = str_int (page_start sec) @ ''-'' @ str_int (page_end sec),
                         chunk_index = i\<rparr>,
             tables = None\<rparr>)
         (enumerate 0 (split_section_into_chunks sec 1500))"

definition create_chunks :: "doc_section list \<Rightarrow> string \<Rightarrow> string \<Rightarrow> content_chunk list" where
  "create_chunks sections rulebook_name sys =
     concat (map (chunks_of_section rulebook_name sys) sections)"

section \<open>The search tool (mcp_server/mcp_server.py)\<close>

record search_config =
  default_max_results :: int
  similarity_threshold :: real
  enable_keyword_fallback :: bool






section \<open>Reference definitions and example data\<close>

text \<open>The cosine similarity of the specification's glossary: the dot product of the
  two vectors divided by the product of their magnitudes, and 0 against a vector of
  magnitude zero. It is written with indexed sums, independently of the code.\<close>

definition magnitude_spec :: "vector \<Rightarrow> real" where
  "magnitude_spec u = sqrt (\<Sum>i<length u. (u ! i)\<^sup>2)"

definition cosine_similarity_spec :: "vector \<Rightarrow> vector \<Rightarrow> real" where
  "cosine_similarity_spec u v =
     (let mu = sqrt (\<Sum>i<length u. (u ! i)\<^sup>2); mv = sqrt (\<Sum>i<length v. (v ! i)\<^sup>2)
      in if mu = 0 \<or> mv = 0 then 0 else (\<Sum>i<length u. u ! i * v ! i) / (mu * mv))"



text \<open>Example data for the concrete instances below: three chunks in two rulebooks and
  two systems, one of them with a vector of another dimension, and two chunks with
  the same vector that SCAN lists as \<open>b\<close>, \<open>a\<close>.\<close>

definition example_chunk :: "string \<Rightarrow> string \<Rightarrow> string \<Rightarrow> string \<Rightarrow> vector \<Rightarrow> content_chunk" where
  "example_chunk i rb sys ttl emb =
     \<lparr>chunk_id = i, rulebook = rb, system = sys, content_type = ''rule'', title = ttl,
      content = ''text'', page_number = 1, section_path = [ttl], embedding = emb,
      metadata = \<lparr>section_level = 0, page_range = ''1-1'', chunk_index = 0\<rparr>,
      tables = None\<rparr>"

definition example_store :: redis where
  "example_store = store_rulebook_content
     [example_chunk ''A'' ''X'' ''S1'' ''Alpha'' [1, 0],
      example_chunk ''B'' ''X'' ''S2'' ''Beta'' [0, 1],
      example_chunk ''C'' ''Y'' ''S1'' ''Gamma'' [1]]
     empty_redis"

definition tie_store :: redis where
  "tie_store = store_rulebook_content
     [example_chunk ''b'' ''X'' ''S1'' ''Beta'' [1], example_chunk ''a'' ''X'' ''S1'' ''Alpha'' [1]]
     empty_redis"

text \<open>A section with a title, a content and one page, and a content of 1505 characters:
  two paragraphs of 750 characters and the paragraph \<open>b\<close>, separated by blank lines.\<close>

definition example_section :: "string \<Rightarrow> string \<Rightarrow> int \<Rightarrow> doc_section" where
  "example_section ttl txt p =
     \<lparr>sec_title = ttl, sec_content = txt, page_start = p, page_end = p, level = 0,
      parent_sections = []\<rparr>"

definition blank_line :: string where
  "blank_line = [CHR 0x0A, CHR 0x0A]"

definition long_paragraph :: string where
  "long_paragraph = replicate 750 (CHR ''a'')"

definition long_content :: string where
  "long_content = long_paragraph @ blank_line @ long_paragraph @ blank_line @ ''b''"

text \<open>A document of three pages with an outline of a chapter, a subsection of it and
  a second chapter.\<close>

definition outline_example :: extracted_data where
  "outline_example =
     \<lparr>pages = [\<lparr>pg_number = 1, pg_text = ''one'', pg_tables = []\<rparr>,
               \<lparr>pg_number = 2, pg_text = ''two'', pg_tables = []\<rparr>,
               \<lparr>pg_number = 3, pg_text = ''three'', pg_tables = []\<rparr>],
      toc = [\<lparr>toc_title = ''A'', toc_page = Some 1, toc_level = 0\<rparr>,
             \<lparr>toc_title = ''A.1'', toc_page = Some 2, toc_level = 1\<rparr>,
             \<lparr>toc_title = ''B'', toc_page = Some 3, toc_level = 0\<rparr>],
      total_pages = 3\<rparr>"





section \<open>Properties of the built-ins\<close>

lemma prefix_py_slice_to: "prefix (py_slice_to n xs) xs"
  by (simp add: py_slice_to_def take_is_prefix)

lemma set_py_slice_to: "set (py_slice_to n xs) \<subseteq> set xs"
  by (auto simp: py_slice_to_def dest: in_set_takeD)

lemma py_slice_to_all: "int (length xs) \<le> n \<Longrightarrow> py_slice_to n xs = xs"
  by (simp add: py_slice_to_def)

lemma set_sort_reverse: "set (sort_reverse key xs) = set xs"
  by (simp add: sort_reverse_def)

lemma length_sort_reverse: "length (sort_reverse key xs) = length xs"
  by (simp add: sort_reverse_def)

lemma sorted_sort_reverse: "sorted_wrt (\<lambda>a b. key b \<le> key a) (sort_reverse key xs)"
proof -
  have "sorted (map (\<lambda>x. - key x) (sort_key (\<lambda>x. - key x) xs))"
    by (rule sorted_sort_key)
  then show ?thesis
    by (simp add: sorted_map sort_reverse_def)
qed

lemma sort_reverse_stable:
  "filter (\<lambda>x. key x = s) (sort_reverse key xs) = filter (\<lambda>x. key x = s) xs"
  using sort_key_stable [of "\<lambda>x. - key x" "- s" xs]
  by (simp add: sort_reverse_def)

section \<open>Cosine similarity\<close>

lemma magnitude_eq_spec: "magnitude v = sqrt (\<Sum>i<length v. (v ! i)\<^sup>2)"
proof -
  have "sum_list (map (\<lambda>a. a * a) v) = (\<Sum>i<length v. (v ! i)\<^sup>2)"
    by (simp add: sum_list_sum_nth power2_eq_square atLeast0LessThan)
  then show ?thesis by (simp add: magnitude_def)
qed

lemma dot_product_eq_spec:
  "length u = length v \<Longrightarrow> dot_product u v = (\<Sum>i<length u. u ! i * v ! i)"
  by (simp add: dot_product_def sum_list_sum_nth atLeast0LessThan)

lemma cosine_try_Inr:
  "cosine_try u v = Inr (if magnitude u = 0 \<or> magnitude v = 0 then 0
                         else dot_product u v / (magnitude u * magnitude v))"
  by (simp add: cosine_try_def py_div_def Let_def)

lemma similarity_try_Inr:
  "length u = length v \<Longrightarrow>
   similarity_try u v = Inr (if magnitude u = 0 \<or> magnitude v = 0 then 0
                         else dot_product u v / (magnitude u * magnitude v))"
  by (simp add: similarity_try_def np_dot_def py_div_def Let_def)

lemma magnitude_Nil: "magnitude [] = 0"
  by (simp add: magnitude_def)

lemma cosine_similarity_eq:
  "cosine_similarity u v =
     (if length u \<noteq> length v \<or> magnitude u = 0 \<or> magnitude v = 0 then 0
      else dot_product u v / (magnitude u * magnitude v))"
  by (auto simp: cosine_similarity_def cosine_try_Inr magnitude_Nil)

lemma similarity_eq:
  "similarity u v =
     (if length u \<noteq> length v \<or> magnitude u = 0 \<or> magnitude v = 0 then 0
      else dot_product u v / (magnitude u * magnitude v))"
  by (auto simp: similarity_def magnitude_Nil similarity_try_def np_dot_def py_div_def Let_def)

lemma cosine_similarity_unequal: "length u \<noteq> length v \<Longrightarrow> cosine_similarity u v = 0"
  by (simp add: cosine_similarity_def)

lemma cosine_examples:
  "cosine_similarity [1, 0] [1, 0] = 1" "cosine_similarity [1, 0] [0, 1] = 0"
  "cosine_similarity [1, 0] [1] = 0" "cosine_similarity [1] [1] = 1"
  by (simp_all add: cosine_similarity_eq magnitude_def dot_product_def)

text \<open>
  Claim C8. For every pair of vectors the similarity function returns their cosine
  similarity, and whenever either vector has zero magnitude (an empty vector included)
  it returns 0 rather than raising a division error: the division is never reached
  with a zero denominator. This holds for \<open>_cosine_similarity\<close> of the store and for
  \<open>similarity\<close> of the embedding service; the cosine similarity is the one of the
  specification, defined for vectors of equal length.
\<close>

theorem C8_cosine_no_division_error:
  "cosine_try u v \<noteq> Inl ZeroDivisionError \<and> similarity_try u v \<noteq> Inl ZeroDivisionError
   \<and> (magnitude_spec u = 0 \<or> magnitude_spec v = 0 \<or> u = [] \<or> v = []
        \<longrightarrow> cosine_similarity u v = 0 \<and> similarity u v = 0)
   \<and> (length u = length v
        \<longrightarrow> cosine_similarity u v = cosine_similarity_spec u v
          \<and> similarity u v = cosine_similarity_spec u v)"
proof -
  have a: "cosine_try u v \<noteq> Inl ZeroDivisionError"
    by (simp add: cosine_try_Inr)
  have b: "similarity_try u v \<noteq> Inl ZeroDivisionError"
    by (simp add: similarity_try_def np_dot_def py_div_def Let_def)
  have c: "magnitude_spec u = 0 \<or> magnitude_spec v = 0 \<or> u = [] \<or> v = []
        \<longrightarrow> cosine_similarity u v = 0 \<and> similarity u v = 0"
    by (auto simp: cosine_similarity_eq similarity_eq magnitude_spec_def magnitude_eq_spec)
  have d: "length u = length v
        \<longrightarrow> cosine_similarity u v = cosine_similarity_spec u v
          \<and> similarity u v = cosine_similarity_spec u v"
    by (simp add: cosine_similarity_eq similarity_eq cosine_similarity_spec_def Let_def
        magnitude_eq_spec dot_product_eq_spec)
  from a b c d show ?thesis by blast
qed

theorem C8_witness:
  "magnitude_spec [0, 0] = 0 \<and> cosine_similarity [0, 0] [3, 4] = 0 \<and> similarity [0, 0] [3, 4] = 0
   \<and> length [1, 0 :: real] = length [1, 1 :: real]
   \<and> cosine_similarity [1, 0] [1, 1] = cosine_similarity_spec [1, 0] [1, 1]
   \<and> cosine_similarity_spec [1, 0] [1, 1] = 1 / sqrt 2
   \<and> cosine_try [1, 0] [1, 1] = Inr (1 / sqrt 2)"
proof -
  have m: "magnitude_spec [0, 0] = 0"
    by (simp add: magnitude_spec_def lessThan_Suc numeral_2_eq_2)
  have s: "cosine_similarity_spec [1, 0] [1, 1] = 1 / sqrt 2"
    by (simp add: cosine_similarity_spec_def lessThan_Suc numeral_2_eq_2)
  have t: "cosine_try [1, 0] [1, 1] = Inr (1 / sqrt 2)"
    by (simp add: cosine_try_Inr magnitude_def dot_product_def)
  from m s t C8_cosine_no_division_error [of "[0, 0]" "[3, 4]"]
    C8_cosine_no_division_error [of "[1, 0]" "[1, 1]"]
  show ?thesis by simp
qed

section \<open>Vector search\<close>

lemma score_candidates_mem:
  "(k, d, s) \<in> set (score_candidates r q thr ks) \<longleftrightarrow>
     k \<in> set ks \<and> hget_data r k = Some d \<and> embedding d \<noteq> [] \<and>
     s = cosine_similarity q (embedding d) \<and> thr \<le> s"
  by (induction ks) (auto simp: Let_def split: option.splits)

lemma length_score_candidates: "length (score_candidates r q thr ks) \<le> length ks"
  by (induction ks) (auto simp: Let_def split: option.splits)

lemma set_top_similarities:
  "set (top_similarities r ks q m thr) \<subseteq> set (score_candidates r q thr ks)"
  using set_py_slice_to [of m "sort_reverse (\<lambda>x. snd (snd x)) (score_candidates r q thr ks)"]
  by (simp add: top_similarities_def set_sort_reverse)

lemma rank_candidates_eq:
  "rank_candidates r ks q m thr = map semantic_result (top_similarities r ks q m thr)"
  by (simp add: rank_candidates_def top_similarities_def py_slice_to_def sort_reverse_def)

lemma top_similarities_all:
  "int (length ks) \<le> m \<Longrightarrow>
   set (top_similarities r ks q m thr) = set (score_candidates r q thr ks)"
proof -
  assume "int (length ks) \<le> m"
  with length_score_candidates [of r q thr ks]
  have "int (length (sort_reverse (\<lambda>x. snd (snd x)) (score_candidates r q thr ks))) \<le> m"
    by (simp add: length_sort_reverse)
  then show ?thesis
    by (simp add: top_similarities_def py_slice_to_all set_sort_reverse)
qed

lemma semantic_result_embedding:
  "embedding (result_chunk (semantic_result (k, d, s))) = embedding d"
  by (simp add: semantic_result_def dict_to_content_chunk_def)

lemma hashes_example_store:
  "hashes example_store =
     [(''chunk:A'', Some ((example_chunk ''A'' ''X'' ''S1'' ''Alpha'' [1, 0])\<lparr>tables := Some []\<rparr>)),
      (''chunk:B'', Some ((example_chunk ''B'' ''X'' ''S2'' ''Beta'' [0, 1])\<lparr>tables := Some []\<rparr>)),
      (''chunk:C'', Some ((example_chunk ''C'' ''Y'' ''S1'' ''Gamma'' [1])\<lparr>tables := Some []\<rparr>))]"
  by (simp add: example_store_def store_rulebook_content_def store_chunk_def empty_redis_def
      sadd_def CHUNK_PREFIX_def example_chunk_def Let_def)

lemma scan_example_store: "scan_iter example_store CHUNK_PREFIX = [''chunk:A'', ''chunk:B'', ''chunk:C'']"
  by (simp add: scan_iter_def hashes_example_store CHUNK_PREFIX_def)

lemma score_example_store:
  "score_candidates example_store [1, 0] thr [''chunk:A'', ''chunk:B'', ''chunk:C''] =
     (if thr \<le> 1
      then [(''chunk:A'', (example_chunk ''A'' ''X'' ''S1'' ''Alpha'' [1, 0])\<lparr>tables := Some []\<rparr>, 1)]
      else [])
     @ (if thr \<le> 0
        then [(''chunk:B'', (example_chunk ''B'' ''X'' ''S2'' ''Beta'' [0, 1])\<lparr>tables := Some []\<rparr>, 0),
              (''chunk:C'', (example_chunk ''C'' ''Y'' ''S1'' ''Gamma'' [1])\<lparr>tables := Some []\<rparr>, 0)]
        else [])"
  by (simp add: hget_data_def hashes_example_store cosine_examples example_chunk_def)

lemma gfc_example_None:
  "get_filtered_chunks example_store None = [''chunk:A'', ''chunk:B'', ''chunk:C'']"
  by (simp add: get_filtered_chunks_def scan_example_store)

lemma top_example_store:
  "0 < thr \<Longrightarrow> thr \<le> 1 \<Longrightarrow>
   top_similarities example_store [''chunk:A'', ''chunk:B'', ''chunk:C''] [1, 0] 10 thr =
     [(''chunk:A'', (example_chunk ''A'' ''X'' ''S1'' ''Alpha'' [1, 0])\<lparr>tables := Some []\<rparr>, 1)]"
  unfolding top_similarities_def score_example_store
  by (simp add: sort_reverse_def py_slice_to_def)

lemma vector_search_example_store:
  "0 < thr \<Longrightarrow> thr \<le> 1 \<Longrightarrow>
   vector_search example_store [1, 0] None 10 thr =
     [semantic_result
        (''chunk:A'', (example_chunk ''A'' ''X'' ''S1'' ''Alpha'' [1, 0])\<lparr>tables := Some []\<rparr>, 1)]"
  by (simp add: vector_search_def rank_candidates_eq gfc_example_None top_example_store)

text \<open>
  Claim C10. For two vectors of unequal length the store's cosine similarity is 0
  (the guard returns before anything is computed, so nothing is raised), and under a
  strictly positive similarity threshold no chunk whose stored vector has another
  dimension than the query vector appears in the results of \<open>vector_search\<close>.
\<close>

theorem C10_dimension_mismatch_excluded:
  "(length vec1 \<noteq> length vec2 \<longrightarrow> cosine_similarity vec1 vec2 = 0)
   \<and> (0 < thr \<longrightarrow>
        (\<forall>res \<in> set (vector_search r q filters m thr).
           length (embedding (result_chunk res)) = length q))"
proof -
  have "length (embedding (result_chunk res)) = length q"
    if pos: "0 < thr" and res: "res \<in> set (vector_search r q filters m thr)" for res
  proof -
    from res obtain t where t: "t \<in> set (score_candidates r q thr (get_filtered_chunks r filters))"
      and r: "res = semantic_result t"
      using set_top_similarities [of r "get_filtered_chunks r filters" q m thr]
      by (auto simp: vector_search_def rank_candidates_eq)
    obtain k d s where kds: "t = (k, d, s)" by (cases t)
    with t have "s = cosine_similarity q (embedding d)" "thr \<le> s"
      by (simp_all add: score_candidates_mem)
    with pos have "cosine_similarity q (embedding d) \<noteq> 0" by simp
    then have "length q = length (embedding d)"
      using cosine_similarity_unequal by blast
    with r kds show ?thesis by (simp add: semantic_result_embedding)
  qed
  then show ?thesis by (simp add: cosine_similarity_unequal)
qed

theorem C10_witness:
  "length [1, 0 :: real] \<noteq> length [1 :: real] \<and> cosine_similarity [1, 0] [1] = 0
   \<and> (0 :: real) < 7 / 10
   \<and> map chunk_id (map result_chunk (vector_search example_store [1, 0] None 10 (7 / 10))) = [''A'']
   \<and> list_all (\<lambda>res. length (embedding (result_chunk res)) = length [1, 0 :: real])
         (vector_search example_store [1, 0] None 10 (7 / 10))"
proof -
  have "map chunk_id (map result_chunk (vector_search example_store [1, 0] None 10 (7 / 10))) = [''A'']"
    by (simp add: vector_search_example_store semantic_result_def dict_to_content_chunk_def
        example_chunk_def)
  with C10_dimension_mismatch_excluded [of "[1, 0]" "[1]" "7 / 10" example_store "[1, 0]" None 10]
  show ?thesis by (simp add: list_all_iff)
qed

subsection \<open>The threshold\<close>

lemma hget_example_store:
  "hget_data example_store ''chunk:A'' = Some ((example_chunk ''A'' ''X'' ''S1'' ''Alpha'' [1, 0])\<lparr>tables := Some []\<rparr>)"
  "hget_data example_store ''chunk:B'' = Some ((example_chunk ''B'' ''X'' ''S2'' ''Beta'' [0, 1])\<lparr>tables := Some []\<rparr>)"
  by (simp_all add: hget_data_def hashes_example_store)

lemma py_slice_to_take:
  "py_slice_to m xs = take (if m < 0 then nat (int (length xs) + m) else nat m) xs"
  by (simp add: py_slice_to_def)

lemma length_py_slice_to:
  "length (py_slice_to m xs) =
     (if m < 0 then nat (int (length xs) + m) else min (nat m) (length xs))"
  by (auto simp: py_slice_to_def)

lemma sorted_take_cut:
  assumes "sorted_wrt (\<lambda>a b. key b \<le> key a) xs" and "x \<in> set xs" and "x \<notin> set (take j xs)"
  shows "j < length xs \<and> (\<forall>y \<in> set (take j xs). (key x :: real) \<le> key y)"
proof -
  have xs: "xs = take j xs @ drop j xs" by simp
  with assms(2,3) have d: "x \<in> set (drop j xs)"
    by (metis Un_iff set_append)
  then have "drop j xs \<noteq> []" by auto
  then have j: "j < length xs" by simp
  from assms(1) xs have "sorted_wrt (\<lambda>a b. key b \<le> key a) (take j xs @ drop j xs)"
    by simp
  then have "\<forall>a \<in> set (take j xs). \<forall>b \<in> set (drop j xs). key b \<le> key a"
    by (simp only: sorted_wrt_append) blast
  with d j show ?thesis by blast
qed

lemma relevance_semantic_result: "relevance_score (semantic_result (k, d, s)) = s"
  by (simp add: semantic_result_def)

lemma chunk_semantic_result: "result_chunk (semantic_result (k, d, s)) = dict_to_content_chunk d"
  by (simp add: semantic_result_def)

lemma embedding_dict_to_content_chunk: "embedding (dict_to_content_chunk d) = embedding d"
  by (simp add: dict_to_content_chunk_def)

lemma vector_search_eq:
  "vector_search r q filters m thr =
     map semantic_result (top_similarities r (get_filtered_chunks r filters) q m thr)"
  by (simp add: vector_search_def rank_candidates_eq)

lemma vector_search_result:
  assumes "res \<in> set (vector_search r q filters m thr)"
  shows "\<exists>k d. k \<in> set (get_filtered_chunks r filters) \<and> hget_data r k = Some d
           \<and> embedding d \<noteq> [] \<and> thr \<le> cosine_similarity q (embedding d)
           \<and> res = semantic_result (k, d, cosine_similarity q (embedding d))"
proof -
  from assms obtain t where
    t: "t \<in> set (score_candidates r q thr (get_filtered_chunks r filters))"
    and r: "res = semantic_result t"
    using set_top_similarities [of r "get_filtered_chunks r filters" q m thr]
    by (auto simp: vector_search_eq)
  obtain k d s where kds: "t = (k, d, s)" by (cases t)
  with t r show ?thesis by (auto simp: score_candidates_mem)
qed

lemma length_vector_search:
  "length (vector_search r q filters m thr) =
     (if m < 0
      then nat (int (length (score_candidates r q thr (get_filtered_chunks r filters))) + m)
      else min (nat m) (length (score_candidates r q thr (get_filtered_chunks r filters))))"
  by (simp add: vector_search_eq top_similarities_def length_py_slice_to length_sort_reverse)

lemma vector_search_cut:
  assumes "t \<in> set (score_candidates r q thr (get_filtered_chunks r filters))"
    and "semantic_result t \<notin> set (vector_search r q filters m thr)"
  shows "length (vector_search r q filters m thr)
           < length (score_candidates r q thr (get_filtered_chunks r filters))
         \<and> (\<forall>res \<in> set (vector_search r q filters m thr). snd (snd t) \<le> relevance_score res)"
proof -
  let ?xs = "sort_reverse (\<lambda>x. snd (snd x))
      (score_candidates r q thr (get_filtered_chunks r filters))"
  let ?j = "if m < 0 then nat (int (length ?xs) + m) else nat m"
  have v: "vector_search r q filters m thr = map semantic_result (take ?j ?xs)"
    unfolding vector_search_eq top_similarities_def py_slice_to_take ..
  from assms(2) have "t \<notin> set (take ?j ?xs)"
    unfolding v by (metis image_eqI set_map)
  moreover from assms(1) have "t \<in> set ?xs" by (simp add: set_sort_reverse)
  ultimately have c: "?j < length ?xs \<and> (\<forall>y \<in> set (take ?j ?xs). snd (snd t) \<le> snd (snd y))"
    using sorted_take_cut [of "\<lambda>x. snd (snd x)" ?xs t ?j] sorted_sort_reverse [of "\<lambda>x. snd (snd x)"]
    by blast
  then have "length (take ?j ?xs) < length ?xs" by simp
  then have l: "length (vector_search r q filters m thr)
           < length (score_candidates r q thr (get_filtered_chunks r filters))"
    unfolding v by (simp add: length_sort_reverse)
  have "\<forall>res \<in> set (map semantic_result (take ?j ?xs)). snd (snd t) \<le> relevance_score res"
    using c by (auto simp: semantic_result_def)
  with l show ?thesis unfolding v by blast
qed

lemma hashes_tie_store:
  "hashes tie_store =
     [(''chunk:b'', Some ((example_chunk ''b'' ''X'' ''S1'' ''Beta'' [1])\<lparr>tables := Some []\<rparr>)),
      (''chunk:a'', Some ((example_chunk ''a'' ''X'' ''S1'' ''Alpha'' [1])\<lparr>tables := Some []\<rparr>))]"
  by (simp add: tie_store_def store_rulebook_content_def store_chunk_def empty_redis_def
      sadd_def CHUNK_PREFIX_def example_chunk_def Let_def)

lemma gfc_tie_None: "get_filtered_chunks tie_store None = [''chunk:b'', ''chunk:a'']"
  by (simp add: get_filtered_chunks_def scan_iter_def hashes_tie_store CHUNK_PREFIX_def)

lemma hget_tie_store:
  "hget_data tie_store ''chunk:b'' = Some ((example_chunk ''b'' ''X'' ''S1'' ''Beta'' [1])\<lparr>tables := Some []\<rparr>)"
  "hget_data tie_store ''chunk:a'' = Some ((example_chunk ''a'' ''X'' ''S1'' ''Alpha'' [1])\<lparr>tables := Some []\<rparr>)"
  by (simp_all add: hget_data_def hashes_tie_store)

lemma score_tie_store:
  "thr \<le> 1 \<Longrightarrow>
   score_candidates tie_store [1] thr [''chunk:b'', ''chunk:a''] =
     [(''chunk:b'', (example_chunk ''b'' ''X'' ''S1'' ''Beta'' [1])\<lparr>tables := Some []\<rparr>, 1),
      (''chunk:a'', (example_chunk ''a'' ''X'' ''S1'' ''Alpha'' [1])\<lparr>tables := Some []\<rparr>, 1)]"
  by (simp add: hget_tie_store cosine_examples example_chunk_def)

lemma sorted_tie_store:
  "thr \<le> 1 \<Longrightarrow>
   sort_reverse (\<lambda>x. snd (snd x)) (score_candidates tie_store [1] thr [''chunk:b'', ''chunk:a'']) =
     [(''chunk:b'', (example_chunk ''b'' ''X'' ''S1'' ''Beta'' [1])\<lparr>tables := Some []\<rparr>, 1),
      (''chunk:a'', (example_chunk ''a'' ''X'' ''S1'' ''Alpha'' [1])\<lparr>tables := Some []\<rparr>, 1)]"
  by (simp only: score_tie_store) (simp add: sort_reverse_def)

lemma vector_search_tie_store:
  "thr \<le> 1 \<Longrightarrow>
   vector_search tie_store [1] None m thr =
     map semantic_result (py_slice_to m
       [(''chunk:b'', (example_chunk ''b'' ''X'' ''S1'' ''Beta'' [1])\<lparr>tables := Some []\<rparr>, 1),
        (''chunk:a'', (example_chunk ''a'' ''X'' ''S1'' ''Alpha'' [1])\<lparr>tables := Some []\<rparr>, 1)])"
  by (simp only: vector_search_eq gfc_tie_None top_similarities_def sorted_tie_store)

text \<open>
  Claim C6. A candidate key whose stored record has a non-empty vector is appended to
  \<open>similarities\<close> exactly when its cosine similarity to the query vector is at least
  the threshold, equality included. Every result of \<open>vector_search\<close> is such a kept
  candidate: its score is the cosine similarity of its stored vector to the query and is
  at least the threshold. A candidate strictly below the threshold is in no result. A
  candidate at or above the threshold is in the results, unless \<open>max_results\<close> cuts the
  sorted list before it; then the results are fewer than the kept candidates and every
  one of them scores at least as high. The number of results is the number of kept
  candidates cut to \<open>max_results\<close>.
\<close>

theorem C6_threshold_inclusive:
  assumes "chunk_key \<in> set (get_filtered_chunks r filters)"
    and "hget_data r chunk_key = Some chunk_dict"
    and "embedding chunk_dict \<noteq> []"
  shows "(thr \<le> cosine_similarity q (embedding chunk_dict) \<longleftrightarrow>
          (chunk_key, chunk_dict, cosine_similarity q (embedding chunk_dict))
            \<in> set (score_candidates r q thr (get_filtered_chunks r filters)))
     \<and> (cosine_similarity q (embedding chunk_dict) < thr \<longrightarrow>
          chunk_key \<notin> fst ` set (top_similarities r (get_filtered_chunks r filters) q max_results
                                   thr))
     \<and> (thr \<le> cosine_similarity q (embedding chunk_dict)
          \<and> int (length (get_filtered_chunks r filters)) \<le> max_results \<longrightarrow>
          semantic_result (chunk_key, chunk_dict, cosine_similarity q (embedding chunk_dict))
            \<in> set (vector_search r q filters max_results thr))
     \<and> (\<forall>res \<in> set (vector_search r q filters max_results thr).
          thr \<le> relevance_score res
          \<and> relevance_score res = cosine_similarity q (embedding (result_chunk res))
          \<and> embedding (result_chunk res) \<noteq> []
          \<and> (\<exists>k d. k \<in> set (get_filtered_chunks r filters) \<and> hget_data r k = Some d
                \<and> res = semantic_result (k, d, cosine_similarity q (embedding d))))
     \<and> (cosine_similarity q (embedding chunk_dict) < thr \<longrightarrow>
          (\<forall>res \<in> set (vector_search r q filters max_results thr).
             result_chunk res \<noteq> dict_to_content_chunk chunk_dict
             \<and> embedding (result_chunk res) \<noteq> embedding chunk_dict))
     \<and> (thr \<le> cosine_similarity q (embedding chunk_dict) \<longrightarrow>
          semantic_result (chunk_key, chunk_dict, cosine_similarity q (embedding chunk_dict))
            \<in> set (vector_search r q filters max_results thr)
          \<or> (length (vector_search r q filters max_results thr)
                < length (score_candidates r q thr (get_filtered_chunks r filters))
              \<and> (\<forall>res \<in> set (vector_search r q filters max_results thr).
                    cosine_similarity q (embedding chunk_dict) \<le> relevance_score res)))
     \<and> (thr \<le> cosine_similarity q (embedding chunk_dict)
          \<and> int (length (score_candidates r q thr (get_filtered_chunks r filters))) \<le> max_results
          \<longrightarrow>
          semantic_result (chunk_key, chunk_dict, cosine_similarity q (embedding chunk_dict))
            \<in> set (vector_search r q filters max_results thr))
     \<and> length (vector_search r q filters max_results thr) =
          (if max_results < 0
           then nat (int (length (score_candidates r q thr (get_filtered_chunks r filters)))
                     + max_results)
           else min (nat max_results)
                  (length (score_candidates r q thr (get_filtered_chunks r filters))))"
proof -
  let ?ks = "get_filtered_chunks r filters"
  let ?s = "cosine_similarity q (embedding chunk_dict)"
  let ?out = "vector_search r q filters max_results thr"
  have a: "thr \<le> ?s \<longleftrightarrow>
      (chunk_key, chunk_dict, ?s) \<in> set (score_candidates r q thr ?ks)"
    using assms by (simp add: score_candidates_mem)
  have b: "chunk_key \<notin> fst ` set (top_similarities r ?ks q max_results thr)"
    if low: "?s < thr"
  proof
    assume "chunk_key \<in> fst ` set (top_similarities r ?ks q max_results thr)"
    then obtain d s where
      "(chunk_key, d, s) \<in> set (top_similarities r ?ks q max_results thr)"
      by force
    with set_top_similarities [of r ?ks q max_results thr]
    have "(chunk_key, d, s) \<in> set (score_candidates r q thr ?ks)"
      by blast
    with assms(2) have "thr \<le> ?s"
      by (simp add: score_candidates_mem)
    with low show False by simp
  qed
  have c: "semantic_result (chunk_key, chunk_dict, ?s) \<in> set ?out"
    if "thr \<le> ?s" and "int (length ?ks) \<le> max_results"
    using that a top_similarities_all [of ?ks max_results r q thr]
    by (simp add: vector_search_eq)
  have d: "thr \<le> relevance_score res
          \<and> relevance_score res = cosine_similarity q (embedding (result_chunk res))
          \<and> embedding (result_chunk res) \<noteq> []
          \<and> (\<exists>k d. k \<in> set ?ks \<and> hget_data r k = Some d
                \<and> res = semantic_result (k, d, cosine_similarity q (embedding d)))"
    if "res \<in> set ?out" for res
  proof -
    from vector_search_result [OF that] obtain k d where
      kd: "k \<in> set ?ks" "hget_data r k = Some d" "embedding d \<noteq> []"
        "thr \<le> cosine_similarity q (embedding d)"
        "res = semantic_result (k, d, cosine_similarity q (embedding d))"
      by blast
    from kd(3,4,5) have "thr \<le> relevance_score res"
      "relevance_score res = cosine_similarity q (embedding (result_chunk res))"
      "embedding (result_chunk res) \<noteq> []"
      by (simp_all add: relevance_semantic_result chunk_semantic_result
          embedding_dict_to_content_chunk)
    with kd(1,2,5) show ?thesis by blast
  qed
  have e: "result_chunk res \<noteq> dict_to_content_chunk chunk_dict
           \<and> embedding (result_chunk res) \<noteq> embedding chunk_dict"
    if low: "?s < thr" and res: "res \<in> set ?out" for res
  proof -
    from d [OF res] have "thr \<le> cosine_similarity q (embedding (result_chunk res))"
      by simp
    with low have n: "embedding (result_chunk res) \<noteq> embedding chunk_dict"
      by auto
    then have "result_chunk res \<noteq> dict_to_content_chunk chunk_dict"
      by (auto simp: embedding_dict_to_content_chunk)
    with n show ?thesis by simp
  qed
  have f: "semantic_result (chunk_key, chunk_dict, ?s) \<in> set ?out
          \<or> (length ?out < length (score_candidates r q thr ?ks)
              \<and> (\<forall>res \<in> set ?out. ?s \<le> relevance_score res))"
    if "thr \<le> ?s"
  proof (cases "semantic_result (chunk_key, chunk_dict, ?s) \<in> set ?out")
    case True then show ?thesis by simp
  next
    case False
    from that a have "(chunk_key, chunk_dict, ?s) \<in> set (score_candidates r q thr ?ks)"
      by simp
    from vector_search_cut [OF this False] show ?thesis by simp
  qed
  have g: "semantic_result (chunk_key, chunk_dict, ?s) \<in> set ?out"
    if "thr \<le> ?s" and "int (length (score_candidates r q thr ?ks)) \<le> max_results"
  proof -
    from that(2) have "\<not> length ?out < length (score_candidates r q thr ?ks)"
      by (simp add: length_vector_search)
    with f [OF that(1)] show ?thesis by blast
  qed
  note h = length_vector_search [of r q filters max_results thr]
  show ?thesis
    using a b c d e f g h by (intro conjI impI ballI) blast+
qed

lemma embedding_example_chunk: "embedding (example_chunk i rb sys ttl emb) = emb"
  by (simp add: example_chunk_def)

lemma score_example_store_one:
  "score_candidates example_store [1, 0] 1 [''chunk:A'', ''chunk:B'', ''chunk:C''] =
     [(''chunk:A'', (example_chunk ''A'' ''X'' ''S1'' ''Alpha'' [1, 0])\<lparr>tables := Some []\<rparr>, 1)]"
  unfolding score_example_store by simp

theorem C6_witness:
  "cosine_similarity [1, 0] [1, 0] = 1
   \<and> semantic_result (''chunk:A'', (example_chunk ''A'' ''X'' ''S1'' ''Alpha'' [1, 0])\<lparr>tables := Some []\<rparr>, 1)
       \<in> set (vector_search example_store [1, 0] None 10 1)
   \<and> cosine_similarity [1, 0] [0, 1] < 1
   \<and> ''chunk:B'' \<notin> fst ` set (top_similarities example_store
         (get_filtered_chunks example_store None) [1, 0] 10 1)
   \<and> list_all (\<lambda>res. result_chunk res \<noteq> dict_to_content_chunk
           ((example_chunk ''B'' ''X'' ''S2'' ''Beta'' [0, 1])\<lparr>tables := Some []\<rparr>))
         (vector_search example_store [1, 0] None 10 1)
   \<and> list_all (\<lambda>res. 1 \<le> relevance_score res) (vector_search example_store [1, 0] None 10 1)
   \<and> length (vector_search example_store [1, 0] None 10 1) = 1
   \<and> cosine_similarity [1] [1] = 1
   \<and> vector_search tie_store [1] None 1 (7 / 10) =
       [semantic_result (''chunk:b'', (example_chunk ''b'' ''X'' ''S1'' ''Beta'' [1])\<lparr>tables := Some []\<rparr>, 1)]
   \<and> length (vector_search tie_store [1] None 1 (7 / 10))
       < length (score_candidates tie_store [1] (7 / 10) (get_filtered_chunks tie_store None))
   \<and> list_all (\<lambda>res. cosine_similarity [1] [1] \<le> relevance_score res)
         (vector_search tie_store [1] None 1 (7 / 10))"
proof -
  note A = C6_threshold_inclusive [of "''chunk:A''" example_store None
      "(example_chunk ''A'' ''X'' ''S1'' ''Alpha'' [1, 0])\<lparr>tables := Some []\<rparr>" 1 "[1, 0]" 10]
  note B = C6_threshold_inclusive [of "''chunk:B''" example_store None
      "(example_chunk ''B'' ''X'' ''S2'' ''Beta'' [0, 1])\<lparr>tables := Some []\<rparr>" 1 "[1, 0]" 10]
  note T = C6_threshold_inclusive [of "''chunk:a''" tie_store None
      "(example_chunk ''a'' ''X'' ''S1'' ''Alpha'' [1])\<lparr>tables := Some []\<rparr>" "7 / 10" "[1]" 1]
  have t: "vector_search tie_store [1] None 1 (7 / 10) =
       [semantic_result (''chunk:b'', (example_chunk ''b'' ''X'' ''S1'' ''Beta'' [1])\<lparr>tables := Some []\<rparr>, 1)]"
    by (simp add: vector_search_tie_store py_slice_to_def)
  have n: "semantic_result (''chunk:a'', (example_chunk ''a'' ''X'' ''S1'' ''Alpha'' [1])\<lparr>tables := Some []\<rparr>, 1)
      \<notin> set (vector_search tie_store [1] None 1 (7 / 10))"
    by (simp add: t semantic_result_def dict_to_content_chunk_def example_chunk_def)
  have a: "semantic_result (''chunk:A'', (example_chunk ''A'' ''X'' ''S1'' ''Alpha'' [1, 0])\<lparr>tables := Some []\<rparr>, 1)
       \<in> set (vector_search example_store [1, 0] None 10 1)
     \<and> length (vector_search example_store [1, 0] None 10 1) = 1
     \<and> list_all (\<lambda>res. 1 \<le> relevance_score res) (vector_search example_store [1, 0] None 10 1)"
    using A
    by (auto simp add: gfc_example_None hget_example_store cosine_examples
        score_example_store_one list_all_iff embedding_example_chunk
        simp del: score_candidates.simps)
  have b: "''chunk:B'' \<notin> fst ` set (top_similarities example_store
         (get_filtered_chunks example_store None) [1, 0] 10 1)
     \<and> list_all (\<lambda>res. result_chunk res \<noteq> dict_to_content_chunk
           ((example_chunk ''B'' ''X'' ''S2'' ''Beta'' [0, 1])\<lparr>tables := Some []\<rparr>))
         (vector_search example_store [1, 0] None 10 1)"
    using B
    by (auto simp add: gfc_example_None hget_example_store cosine_examples
        score_example_store_one list_all_iff embedding_example_chunk
        simp del: score_candidates.simps)
  have c: "length (vector_search tie_store [1] None 1 (7 / 10))
       < length (score_candidates tie_store [1] (7 / 10) (get_filtered_chunks tie_store None))
     \<and> list_all (\<lambda>res. cosine_similarity [1] [1] \<le> relevance_score res)
         (vector_search tie_store [1] None 1 (7 / 10))"
    using T n
    by (auto simp add: gfc_tie_None hget_tie_store cosine_examples score_tie_store list_all_iff
        embedding_example_chunk simp del: score_candidates.simps)
  from a b c t show ?thesis
    by (simp add: cosine_examples)
qed

section \<open>Filters\<close>






















section \<open>Chunking\<close>

lemma py_split_no_newline:
  "CHR 0x0A \<notin> set xs \<Longrightarrow>
   py_split [CHR 0x0A, CHR 0x0A] cur (xs @ rest) = py_split [CHR 0x0A, CHR 0x0A] (cur @ xs) rest"
  by (induction xs arbitrary: cur) auto

lemma py_split_blank_line:
  "py_split [CHR 0x0A, CHR 0x0A] cur (CHR 0x0A # CHR 0x0A # rest) =
     cur # py_split [CHR 0x0A, CHR 0x0A] [] rest"
  by simp

lemma py_split_long_content:
  "py_split [CHR 0x0A, CHR 0x0A] [] long_content = [long_paragraph, long_paragraph, ''b'']"
proof -
  have n: "CHR 0x0A \<notin> set long_paragraph" by (simp add: long_paragraph_def)
  have "py_split [CHR 0x0A, CHR 0x0A] [] long_content =
      py_split [CHR 0x0A, CHR 0x0A] ([] @ long_paragraph)
        (CHR 0x0A # CHR 0x0A # (long_paragraph @ CHR 0x0A # CHR 0x0A # ''b''))"
    unfolding long_content_def blank_line_def using py_split_no_newline [OF n, of "[]"]
    by simp
  also have "\<dots> = long_paragraph # py_split [CHR 0x0A, CHR 0x0A] []
      (long_paragraph @ CHR 0x0A # CHR 0x0A # ''b'')"
    unfolding py_split_blank_line by simp
  also have "py_split [CHR 0x0A, CHR 0x0A] [] (long_paragraph @ CHR 0x0A # CHR 0x0A # ''b'') =
      py_split [CHR 0x0A, CHR 0x0A] ([] @ long_paragraph) (CHR 0x0A # CHR 0x0A # ''b'')"
    by (rule py_split_no_newline [OF n])
  also have "\<dots> = [long_paragraph, ''b'']"
    unfolding py_split_blank_line by simp
  finally show ?thesis by simp
qed

lemma length_long: "length long_paragraph = 750" "length long_content = 1505"
  by (simp_all add: long_paragraph_def long_content_def blank_line_def)

lemma split_long_content:
  "split_section_into_chunks (example_section ttl long_content p) 1500 =
     [long_paragraph @ blank_line @ long_paragraph, ''b'']"
  by (simp add: split_section_into_chunks_def example_section_def length_long
      py_split_long_content blank_line_def)

lemma py_split_two_paragraphs:
  "py_split [CHR 0x0A, CHR 0x0A] [] (long_paragraph @ blank_line @ long_paragraph) =
     [long_paragraph, long_paragraph]"
proof -
  have n: "CHR 0x0A \<notin> set long_paragraph" by (simp add: long_paragraph_def)
  have "py_split [CHR 0x0A, CHR 0x0A] [] (long_paragraph @ blank_line @ long_paragraph) =
      py_split [CHR 0x0A, CHR 0x0A] ([] @ long_paragraph)
        (CHR 0x0A # CHR 0x0A # (long_paragraph @ []))"
    unfolding blank_line_def using py_split_no_newline [OF n, of "[]"] by simp
  also have "\<dots> = long_paragraph # py_split [CHR 0x0A, CHR 0x0A] ([] @ long_paragraph) []"
    unfolding py_split_blank_line using py_split_no_newline [OF n, of "[]" "[]"] by simp
  finally show ?thesis by simp
qed

text \<open>
  Claim C1. In a section that is split into two or more pieces, every chunk that holds
  more than one paragraph has at most \<open>max_chunk_size\<close> characters. The loop does not
  keep this bound: \<open>current_size\<close> adds up the lengths of the paragraphs and leaves
  out the blank lines that \<open>join\<close> puts between them. A section of two paragraphs of
  750 characters and a third of one character, 1505 characters in all, is split under
  the default limit of 1500 into a first chunk that holds both long paragraphs and has
  1502 characters, and a second chunk \<open>b\<close>; \<open>create_chunks\<close> stores these contents. With
  the limit 4 the content \<open>ab\<close>, \<open>cd\<close>, \<open>e\<close> gives a first chunk of 6 characters.
\<close>

theorem C1_separator_not_counted:
  "length (sec_content (example_section ''T'' long_content 1)) = 1505
   \<and> split_section_into_chunks (example_section ''T'' long_content 1) 1500 =
       [long_paragraph @ blank_line @ long_paragraph, ''b'']
   \<and> map content (create_chunks [example_section ''T'' long_content 1] ''R'' ''S'') =
       [long_paragraph @ blank_line @ long_paragraph, ''b'']
   \<and> py_split [CHR 0x0A, CHR 0x0A] [] (long_paragraph @ blank_line @ long_paragraph) =
       [long_paragraph, long_paragraph]
   \<and> length (long_paragraph @ blank_line @ long_paragraph) = 1502
   \<and> split_section_into_chunks (example_section ''T'' (''ab'' @ blank_line @ ''cd'' @ blank_line @ ''e'') 1) 4 =
       [''ab'' @ blank_line @ ''cd'', ''e'']
   \<and> length (''ab'' @ blank_line @ ''cd'') = 6"
proof -
  have a: "map content (create_chunks [example_section ''T'' long_content 1] ''R'' ''S'') =
       [long_paragraph @ blank_line @ long_paragraph, ''b'']"
    by (simp add: create_chunks_def chunks_of_section_def split_long_content)
  have b: "split_section_into_chunks
      (example_section ''T'' (''ab'' @ blank_line @ ''cd'' @ blank_line @ ''e'') 1) 4 =
       [''ab'' @ blank_line @ ''cd'', ''e'']"
    by (simp add: split_section_into_chunks_def example_section_def blank_line_def)
  have c: "length (sec_content (example_section ''T'' long_content 1)) = 1505"
    by (simp add: example_section_def length_long)
  have d: "length (long_paragraph @ blank_line @ long_paragraph) = 1502"
    by (simp add: length_long blank_line_def)
  have e: "length (''ab'' @ blank_line @ ''cd'') = 6"
    by (simp add: blank_line_def)
  note f = split_long_content [of "''T''" 1]
  note g = py_split_two_paragraphs
  from c f a g d b e show ?thesis by (intro conjI)
qed











section \<open>Section identification\<close>

lemma end_page_of_outline_example:
  "end_page_of outline_example 0 = Inr 3"
  "end_page_of outline_example (Suc 0) = Inr 2"
  "end_page_of outline_example 2 = Inr 3"
  by (simp_all add: end_page_of_def outline_example_def)

lemma section_of_entry_outline_example:
  "section_of_entry outline_example 0 =
     Inr (Some \<lparr>sec_title = ''A'', sec_content = ''one'' @ [CHR 0x0A] @ ''two'' @ [CHR 0x0A] @ ''three'',
                page_start = 1, page_end = 3, level = 0, parent_sections = []\<rparr>)"
  "section_of_entry outline_example (Suc 0) =
     Inr (Some \<lparr>sec_title = ''A.1'', sec_content = ''two'',
                page_start = 2, page_end = 2, level = 1, parent_sections = [''A'']\<rparr>)"
  "section_of_entry outline_example 2 =
     Inr (Some \<lparr>sec_title = ''B'', sec_content = ''three'',
                page_start = 3, page_end = 3, level = 0, parent_sections = []\<rparr>)"
  unfolding section_of_entry_def end_page_of_outline_example
  by (simp_all add: outline_example_def extract_section_content_def parent_sections_of_def)

text \<open>
  Claim C3. The section of outline entry \<open>i\<close> with level \<open>L\<close> ends one page before
  the first later entry whose level is at most \<open>L\<close>, or on the last page of the
  document when there is no such entry. The code looks at the entry \<open>i + 1\<close> only: when
  that entry lies deeper, the section runs to the last page. In the outline \<open>A\<close> (page
  1, level 0), \<open>A.1\<close> (page 2, level 1), \<open>B\<close> (page 3, level 0) of a document of
  three pages, the section \<open>A\<close> gets the end page 3 and the text of all three pages,
  where the rule of the specification gives the end page 2.
\<close>

theorem C3_end_page_next_entry_only:
  "identify_sections (\<lambda>ps. []) outline_example =
     Inr [\<lparr>sec_title = ''A'', sec_content = ''one'' @ [CHR 0x0A] @ ''two'' @ [CHR 0x0A] @ ''three'',
            page_start = 1, page_end = 3, level = 0, parent_sections = []\<rparr>,
          \<lparr>sec_title = ''A.1'', sec_content = ''two'',
            page_start = 2, page_end = 2, level = 1, parent_sections = [''A'']\<rparr>,
          \<lparr>sec_title = ''B'', sec_content = ''three'',
            page_start = 3, page_end = 3, level = 0, parent_sections = []\<rparr>]
   \<and> end_page_of outline_example 0 = Inr 3
   \<and> outline_end_page_spec outline_example 0 = Some 2
   \<and> outline_end_page_spec outline_example 1 = Some 2
   \<and> outline_end_page_spec outline_example 2 = Some 3"
proof -
  have t: "toc outline_example \<noteq> []" "length (toc outline_example) = 3"
    by (simp_all add: outline_example_def)
  have u: "[0..<3] = [0, Suc 0, 2]"
    by (simp add: upt_conv_Cons numeral_3_eq_3)
  have a: "identify_sections (\<lambda>ps. []) outline_example =
     Inr [\<lparr>sec_title = ''A'', sec_content = ''one'' @ [CHR 0x0A] @ ''two'' @ [CHR 0x0A] @ ''three'',
            page_start = 1, page_end = 3, level = 0, parent_sections = []\<rparr>,
          \<lparr>sec_title = ''A.1'', sec_content = ''two'',
            page_start = 2, page_end = 2, level = 1, parent_sections = [''A'']\<rparr>,
          \<lparr>sec_title = ''B'', sec_content = ''three'',
            page_start = 3, page_end = 3, level = 0, parent_sections = []\<rparr>]"
    unfolding identify_sections_def t u
    by (simp add: t section_of_entry_outline_example)
  have b: "outline_end_page_spec outline_example 0 = Some 2"
    "outline_end_page_spec outline_example 1 = Some 2"
    "outline_end_page_spec outline_example 2 = Some 3"
    by (simp_all add: outline_end_page_spec_def outline_example_def)
  from a b end_page_of_outline_example(1) show ?thesis by (intro conjI)
qed

section \<open>The search tool\<close>

















section \<open>The order of the results\<close>

lemma prefix_filter_take: "prefix (filter P (take j xs)) (filter P xs)"
proof -
  have "filter P xs = filter P (take j xs) @ filter P (drop j xs)"
    by (metis append_take_drop_id filter_append)
  then show ?thesis by (simp add: prefixI)
qed

lemma prefix_filter_py_slice_to: "prefix (filter P (py_slice_to m xs)) (filter P xs)"
  unfolding py_slice_to_take by (rule prefix_filter_take)

lemma sorted_py_slice_to: "sorted_wrt R xs \<Longrightarrow> sorted_wrt R (py_slice_to m xs)"
  unfolding py_slice_to_take by (rule sorted_wrt_take)

lemma score_candidates_cong:
  "(\<forall>k \<in> set ks. hget_data r k = hget_data r' k) \<Longrightarrow>
   score_candidates r q thr ks = score_candidates r' q thr ks"
  by (induction ks) (simp_all add: Let_def)

lemma subseq_score_candidates: "subseq (map fst (score_candidates r q thr ks)) ks"
  by (induction ks) (auto simp: Let_def split: option.splits)

lemma sorted_vector_search:
  "sorted_wrt (\<lambda>a b. relevance_score b \<le> relevance_score a) (vector_search r q filters m thr)"
proof -
  have "sorted_wrt (\<lambda>a b. snd (snd b) \<le> snd (snd a))
      (top_similarities r (get_filtered_chunks r filters) q m thr)"
    unfolding top_similarities_def
    by (rule sorted_py_slice_to) (rule sorted_sort_reverse)
  then show ?thesis
    by (simp add: vector_search_eq sorted_wrt_map semantic_result_def)
qed

lemma ties_vector_search:
  "prefix (filter (\<lambda>res. relevance_score res = s) (vector_search r q filters m thr))
     (map semantic_result
        (filter (\<lambda>t. snd (snd t) = s)
           (score_candidates r q thr (get_filtered_chunks r filters))))"
proof -
  let ?c = "score_candidates r q thr (get_filtered_chunks r filters)"
  let ?P = "\<lambda>t :: string \<times> content_chunk \<times> real. snd (snd t) = s"
  have "filter (\<lambda>res. relevance_score res = s) (vector_search r q filters m thr) =
      map semantic_result (filter ?P (py_slice_to m (sort_reverse (\<lambda>x. snd (snd x)) ?c)))"
    by (simp add: vector_search_eq top_similarities_def filter_map comp_def semantic_result_def)
  moreover have "prefix (filter ?P (py_slice_to m (sort_reverse (\<lambda>x. snd (snd x)) ?c)))
      (filter ?P (sort_reverse (\<lambda>x. snd (snd x)) ?c))"
    by (rule prefix_filter_py_slice_to)
  moreover have "filter ?P (sort_reverse (\<lambda>x. snd (snd x)) ?c) = filter ?P ?c"
    by (rule sort_reverse_stable)
  ultimately show ?thesis by (simp add: map_mono_prefix)
qed

lemma vector_search_cong:
  assumes "get_filtered_chunks r filters = get_filtered_chunks r' filters'"
    and "\<forall>k \<in> set (get_filtered_chunks r filters). hget_data r k = hget_data r' k"
  shows "vector_search r q filters m thr = vector_search r' q filters' m thr"
proof -
  from assms have "score_candidates r q thr (get_filtered_chunks r filters) =
      score_candidates r' q thr (get_filtered_chunks r' filters')"
    using score_candidates_cong [of "get_filtered_chunks r filters" r r' q thr] by simp
  then show ?thesis by (simp add: vector_search_eq top_similarities_def)
qed

lemma vector_search_tie_None:
  "vector_search tie_store [1] None 10 (7 / 10) =
     [semantic_result (''chunk:b'', (example_chunk ''b'' ''X'' ''S1'' ''Beta'' [1])\<lparr>tables := Some []\<rparr>, 1),
      semantic_result (''chunk:a'', (example_chunk ''a'' ''X'' ''S1'' ''Alpha'' [1])\<lparr>tables := Some []\<rparr>, 1)]"
  by (simp add: vector_search_tie_store py_slice_to_def)

lemma result_ids_tie_store:
  "map (\<lambda>res. chunk_id (result_chunk res)) (vector_search tie_store [1] None 10 (7 / 10)) =
     [''b'', ''a'']"
  "map relevance_score (vector_search tie_store [1] None 10 (7 / 10)) = [1, 1]"
  by (simp_all add: vector_search_tie_None semantic_result_def dict_to_content_chunk_def
      example_chunk_def)

text \<open>
  Claim C2. Vector search returns the same order on repeated calls, and results with
  equal scores are ordered by ascending chunk id. The code has no tie-break by id: it
  sorts by score alone, and the sort is stable. In a store whose keys SCAN lists as
  \<open>chunk:b\<close>, \<open>chunk:a\<close>, both chunks with the vector of the query, the results have the
  ids \<open>b\<close>, \<open>a\<close> and the scores 1, 1.
\<close>

theorem C2_ties_not_ordered_by_id:
  "map (\<lambda>res. chunk_id (result_chunk res)) (vector_search tie_store [1] None 10 (7 / 10)) =
     [''b'', ''a'']
   \<and> map relevance_score (vector_search tie_store [1] None 10 (7 / 10)) = [1, 1]
   \<and> ''a'' < ''b'' \<and> \<not> ''b'' \<le> ''a''
   \<and> scan_iter tie_store CHUNK_PREFIX = [''chunk:b'', ''chunk:a'']"
proof -
  have "''a'' < ''b''" "\<not> ''b'' \<le> ''a''"
    by (simp_all add: less_char_def less_eq_char_def)
  moreover have "scan_iter tie_store CHUNK_PREFIX = [''chunk:b'', ''chunk:a'']"
    by (simp add: scan_iter_def hashes_tie_store CHUNK_PREFIX_def)
  ultimately show ?thesis by (simp add: result_ids_tie_store)
qed

text \<open>
  Claim C2, as the code has it. The results of \<open>vector_search\<close> are in descending order
  of score. The results with one and the same score are the first of the kept
  candidates with that score, in the order of the kept candidates, which is the order
  in which the store enumerated the candidate keys. The results depend on the store
  only through the list of candidate keys and the records stored under them: two
  stores, or two filters, that give the same candidate list and the same records give
  the same results.
\<close>

theorem C2_order_by_score_then_enumeration:
  "sorted_wrt (\<lambda>a b. relevance_score b \<le> relevance_score a) (vector_search r q filters m thr)
   \<and> prefix (filter (\<lambda>res. relevance_score res = s) (vector_search r q filters m thr))
       (map semantic_result
          (filter (\<lambda>t. snd (snd t) = s)
             (score_candidates r q thr (get_filtered_chunks r filters))))
   \<and> subseq (map fst (score_candidates r q thr (get_filtered_chunks r filters)))
       (get_filtered_chunks r filters)
   \<and> (get_filtered_chunks r filters = get_filtered_chunks r' filters'
        \<and> (\<forall>k \<in> set (get_filtered_chunks r filters). hget_data r k = hget_data r' k) \<longrightarrow>
        vector_search r q filters m thr = vector_search r' q filters' m thr)"
  using sorted_vector_search [of r q filters m thr] ties_vector_search [of s r q filters m thr]
    subseq_score_candidates [of r q thr "get_filtered_chunks r filters"]
    vector_search_cong [of r filters r' filters' q m thr]
  by (intro conjI impI) blast+

theorem C2_witness:
  "filter (\<lambda>res. relevance_score res = 1) (vector_search tie_store [1] None 10 (7 / 10)) =
     [semantic_result (''chunk:b'', (example_chunk ''b'' ''X'' ''S1'' ''Beta'' [1])\<lparr>tables := Some []\<rparr>, 1),
      semantic_result (''chunk:a'', (example_chunk ''a'' ''X'' ''S1'' ''Alpha'' [1])\<lparr>tables := Some []\<rparr>, 1)]
   \<and> map fst (score_candidates tie_store [1] (7 / 10) (get_filtered_chunks tie_store None)) =
       [''chunk:b'', ''chunk:a'']
   \<and> get_filtered_chunks tie_store None = get_filtered_chunks tie_store (Some [])
   \<and> vector_search tie_store [1] None 10 (7 / 10) =
       vector_search tie_store [1] (Some []) 10 (7 / 10)"
proof -
  note t = C2_order_by_score_then_enumeration [of tie_store "[1]" None 10 "7 / 10" 1 tie_store "Some []"]
  have g: "get_filtered_chunks tie_store None = get_filtered_chunks tie_store (Some [])"
    by (simp add: get_filtered_chunks_def)
  from t g have v: "vector_search tie_store [1] None 10 (7 / 10) =
       vector_search tie_store [1] (Some []) 10 (7 / 10)"
    by blast
  have f: "filter (\<lambda>res. relevance_score res = 1) (vector_search tie_store [1] None 10 (7 / 10)) =
     [semantic_result (''chunk:b'', (example_chunk ''b'' ''X'' ''S1'' ''Beta'' [1])\<lparr>tables := Some []\<rparr>, 1),
      semantic_result (''chunk:a'', (example_chunk ''a'' ''X'' ''S1'' ''Alpha'' [1])\<lparr>tables := Some []\<rparr>, 1)]"
    by (simp add: vector_search_tie_None semantic_result_def)
  have c: "map fst (score_candidates tie_store [1] (7 / 10) (get_filtered_chunks tie_store None)) =
       [''chunk:b'', ''chunk:a'']"
    unfolding gfc_tie_None by (simp add: score_tie_store del: score_candidates.simps)
  from f c g v show ?thesis by (intro conjI)
qed

end
